theory Spec2Isabelle
  imports Complex_Main
begin

section \<open>Python values and primitives used by the scraper\<close>

text \<open>
  The source is \<^verbatim>\<open>scrapers/texas_cad_scraper.py\<close>. Python integers are unbounded and are
  modelled by \<^typ>\<open>int\<close>. Python floats are modelled by exact rationals (\<^typ>\<open>rat\<close>): the
  binary rounding of float arithmetic is not part of the model. Exceptions are values of
  the type \<open>error\<close>; a function that can raise returns \<open>error + 'a\<close>. The calls of the
  logger write messages only and are left out, as are \<^verbatim>\<open>rotate_proxy\<close>,
  \<^verbatim>\<open>scrape_county_cad\<close> and \<^verbatim>\<open>main\<close>, which none of the properties below is about.
\<close>

datatype error = IndexError | KeyError | ZeroDivisionError | OSError

text \<open>\<^verbatim>\<open>int(x)\<close> on a float: truncation towards zero.\<close>

definition py_int :: "rat \<Rightarrow> int" where
  "py_int x = (if 0 \<le> x then \<lfloor>x\<rfloor> else \<lceil>x\<rceil>)"

text \<open>\<^verbatim>\<open>a / b\<close> on integers: true division, ZeroDivisionError when \<open>b = 0\<close>.\<close>

definition py_truediv :: "int \<Rightarrow> int \<Rightarrow> error + rat" where
  "py_truediv a b = (if b = 0 then Inl ZeroDivisionError else Inr (of_int a / of_int b))"

text \<open>\<^verbatim>\<open>sub in s\<close> on strings: \<open>sub\<close> occurs in \<open>s\<close> as a contiguous substring.\<close>

fun starts_with :: "string \<Rightarrow> string \<Rightarrow> bool" where
  "starts_with [] s = True"
| "starts_with (c # cs) [] = False"
| "starts_with (c # cs) (d # ds) = (c = d \<and> starts_with cs ds)"

fun str_contains :: "string \<Rightarrow> string \<Rightarrow> bool" where
  "str_contains sub [] = (sub = [])"
| "str_contains sub (c # cs) = (starts_with sub (c # cs) \<or> str_contains sub cs)"

text \<open>\<^verbatim>\<open>str(n)\<close> on an integer, and the format specification \<^verbatim>\<open>{n:0wd}\<close>.\<close>

fun str_nat :: "nat \<Rightarrow> string" where
  "str_nat n =
     (if n < 10 then [''0123456789'' ! n]
      else str_nat (n div 10) @ [''0123456789'' ! (n mod 10)])"

declare str_nat.simps [simp del]

definition str_int :: "int \<Rightarrow> string" where
  "str_int i = (if i < 0 then ''-'' @ str_nat (nat (- i)) else str_nat (nat i))"

definition zfill :: "nat \<Rightarrow> string \<Rightarrow> string" where
  "zfill w s = replicate (w - length s) (CHR ''0'') @ s"

definition fmt_0d :: "nat \<Rightarrow> int \<Rightarrow> string" where
  "fmt_0d w i =
     (if i < 0 then ''-'' @ zfill (w - 1) (str_nat (nat (- i))) else zfill w (str_nat (nat i)))"

text \<open>
  \<^verbatim>\<open>round(x, 2)\<close>: the nearest multiple of 1/100, a tie going to the even one.
\<close>

definition py_round2 :: "rat \<Rightarrow> rat" where
  "py_round2 x =
     (let y = x * 100; f = \<lfloor>y\<rfloor>; r = y - of_int f;
          k = (if r < 1 / 2 then f else if 1 / 2 < r then f + 1
               else if even f then f else f + 1)
      in of_int k / 100)"

text \<open>
  The value \<^verbatim>\<open>datetime.now()\<close> returns (the fields of a \<^verbatim>\<open>datetime\<close> object), and its
  \<^verbatim>\<open>isoformat()\<close>.
\<close>

record datetime =
  dt_year :: int
  dt_month :: int
  dt_day :: int
  dt_hour :: int
  dt_minute :: int
  dt_second :: int
  dt_microsecond :: int

definition isoformat :: "datetime \<Rightarrow> string" where
  "isoformat t =
     fmt_0d 4 (dt_year t) @ ''-'' @ fmt_0d 2 (dt_month t) @ ''-'' @ fmt_0d 2 (dt_day t) @
     ''T'' @ fmt_0d 2 (dt_hour t) @ '':'' @ fmt_0d 2 (dt_minute t) @ '':'' @
     fmt_0d 2 (dt_second t) @
     (if dt_microsecond t \<noteq> 0 then ''.'' @ fmt_0d 6 (dt_microsecond t) else [])"

subsection \<open>The random module\<close>

text \<open>
  The random module is an external input. Each call takes as its last argument the
  value \<open>u\<close> that \<^verbatim>\<open>random.random()\<close> delivers to it, a number with \<open>0 \<le> u < 1\<close>.
  \<^verbatim>\<open>uniform(a, b)\<close> is \<^verbatim>\<open>a + (b - a) * random()\<close>; \<^verbatim>\<open>randint(a, b)\<close> is
  \<^verbatim>\<open>a + randbelow(b - a + 1)\<close>; \<^verbatim>\<open>choice(seq)\<close> is \<^verbatim>\<open>seq[randbelow(len(seq))]\<close> and raises
  IndexError on an empty sequence. \<open>randbelow n\<close> scales \<open>u\<close> to \<open>{0..<n}\<close>.
\<close>

definition unit_interval :: "rat \<Rightarrow> bool" where
  "unit_interval u \<longleftrightarrow> 0 \<le> u \<and> u < 1"

definition randbelow :: "nat \<Rightarrow> rat \<Rightarrow> nat" where
  "randbelow n u = nat \<lfloor>of_nat n * u\<rfloor>"

definition uniform :: "rat \<Rightarrow> rat \<Rightarrow> rat \<Rightarrow> rat" where
  "uniform a b u = a + (b - a) * u"

definition randint :: "int \<Rightarrow> int \<Rightarrow> rat \<Rightarrow> int" where
  "randint a b u = a + int (randbelow (nat (b - a + 1)) u)"

definition random_choice :: "'a list \<Rightarrow> rat \<Rightarrow> error + 'a" where
  "random_choice seq u =
     (if seq = [] then Inl IndexError else Inr (seq ! randbelow (length seq) u))"

text \<open>Sequencing of calls that can raise: the first error ends the computation.\<close>

definition and_then :: "error + 'a \<Rightarrow> ('a \<Rightarrow> error + 'b) \<Rightarrow> error + 'b" where
  "and_then r f = (case r of Inl e \<Rightarrow> Inl e | Inr x \<Rightarrow> f x)"

subsection \<open>Dictionaries\<close>

text \<open>
  A Python dict keeps its keys in insertion order: an association list with distinct
  keys. \<open>dict_get d k v\<close> is \<^verbatim>\<open>d.get(k, v)\<close>; \<open>dict_set d k v\<close> is \<^verbatim>\<open>d[k] = v\<close>.
\<close>

datatype pyval =
  PStr string | PInt int | PFloat rat | PBool bool | PCounts "(string \<times> int) list"

definition dict_get :: "(string \<times> 'v) list \<Rightarrow> string \<Rightarrow> 'v \<Rightarrow> 'v" where
  "dict_get d k v = (case map_of d k of None \<Rightarrow> v | Some x \<Rightarrow> x)"

fun dict_set :: "(string \<times> 'v) list \<Rightarrow> string \<Rightarrow> 'v \<Rightarrow> (string \<times> 'v) list" where
  "dict_set [] k v = [(k, v)]"
| "dict_set ((k', x) # d) k v = (if k' = k then (k, v) # d else (k', x) # dict_set d k v)"

text \<open>\<^verbatim>\<open>d[k] += 1\<close>: reads \<^verbatim>\<open>d[k]\<close>, which raises KeyError for a missing key.\<close>

definition dict_incr :: "(string \<times> int) list \<Rightarrow> string \<Rightarrow> error + (string \<times> int) list" where
  "dict_incr d k =
     (case map_of d k of None \<Rightarrow> Inl KeyError | Some n \<Rightarrow> Inr (dict_set d k (n + 1)))"

text \<open>\<^verbatim>\<open>xs[0]\<close>: IndexError on an empty list.\<close>

definition first_item :: "'a list \<Rightarrow> error + 'a" where
  "first_item xs = (case xs of [] \<Rightarrow> Inl IndexError | x # _ \<Rightarrow> Inr x)"

section \<open>The scraper object\<close>

text \<open>
  One generated property (the dict \<^verbatim>\<open>property_data\<close>, whose nineteen keys are fixed), one
  entry of the reference table \<^verbatim>\<open>self.texas_cads\<close>, and the scraper object itself. The
  HTTP session and the proxy cycle of the object are used by \<^verbatim>\<open>rotate_proxy\<close> only and are
  left out.
\<close>

record property =
  account_number :: string
  owner_name :: string
  property_address :: string
  city :: string
  county :: string
  zipcode :: string
  property_type :: string
  year_built :: int
  square_feet :: int
  lot_size_acres :: rat
  appraised_value :: int
  market_value :: int
  homestead_exemption :: bool
  last_sale_date :: string
  last_sale_price :: int
  cad_url :: string
  lead_score :: int
  data_source :: string
  scraped_at :: string

record cad_info =
  url :: string
  population :: int
  major_cities :: "string list"

record scraper =
  all_properties :: "property list"
  texas_cads :: "(string \<times> cad_info) list"

text \<open>\<^verbatim>\<open>TexasCADScraper.__init__\<close>.\<close>

definition TexasCADScraper :: scraper where
  "TexasCADScraper = \<lparr>
     all_properties = [],
     texas_cads = [
       (''Harris County'', \<lparr>url = ''https://hcad.org'', population = 4731145,
          major_cities = [''Houston'', ''Pasadena'', ''Pearland'', ''League City'']\<rparr>),
       (''Dallas County'', \<lparr>url = ''https://dallascad.org'', population = 2613539,
          major_cities = [''Dallas'', ''Irving'', ''Garland'', ''Mesquite'', ''Richardson'']\<rparr>),
       (''Tarrant County'', \<lparr>url = ''https://tad.org'', population = 2110640,
          major_cities = [''Fort Worth'', ''Arlington'', ''Grand Prairie'', ''Mansfield'']\<rparr>),
       (''Bexar County'', \<lparr>url = ''https://bcad.org'', population = 2009324,
          major_cities = [''San Antonio'', ''Live Oak'', ''Converse'', ''Universal City'']\<rparr>),
       (''Travis County'', \<lparr>url = ''https://tcad.org'', population = 1290188,
          major_cities = [''Austin'', ''Round Rock'', ''Pflugerville'', ''Cedar Park'']\<rparr>),
       (''Collin County'', \<lparr>url = ''https://collincad.org'', population = 1064465,
          major_cities = [''Plano'', ''McKinney'', ''Frisco'', ''Allen'']\<rparr>),
       (''Hidalgo County'', \<lparr>url = ''https://hidalgocad.org'', population = 870781,
          major_cities = [''McAllen'', ''Edinburg'', ''Mission'', ''Pharr'']\<rparr>),
       (''Fort Bend County'', \<lparr>url = ''https://fbcad.org'', population = 822779,
          major_cities = [''Sugar Land'', ''Missouri City'', ''Stafford'', ''Richmond'']\<rparr>),
       (''Denton County'', \<lparr>url = ''https://dentoncad.com'', population = 906422,
          major_cities = [''Denton'', ''Lewisville'', ''Flower Mound'', ''Carrollton'']\<rparr>),
       (''Montgomery County'', \<lparr>url = ''https://mctx.org'', population = 620443,
          major_cities = [''Conroe'', ''The Woodlands'', ''Spring'', ''Tomball'']\<rparr>)]\<rparr>"

section \<open>County lookups\<close>

text \<open>
  \<^verbatim>\<open>generate_zipcode_for_county\<close> and \<^verbatim>\<open>get_base_property_value\<close>. Both look the county up
  with \<^verbatim>\<open>dict.get\<close> and a default: \<^verbatim>\<open>zip_ranges.get(county, ['75001'])\<close> and
  \<^verbatim>\<open>base_values.get(county, 250000)\<close>.
\<close>

definition zip_ranges :: "(string \<times> string list) list" where
  "zip_ranges = [
     (''Harris County'', [''77001'', ''77002'', ''77003'', ''77004'', ''77005'', ''77006'', ''77007'']),
     (''Dallas County'', [''75201'', ''75204'', ''75206'', ''75214'', ''75218'', ''75230'', ''75240'']),
     (''Tarrant County'', [''76101'', ''76104'', ''76108'', ''76116'', ''76120'', ''76132'', ''76140'']),
     (''Bexar County'', [''78201'', ''78202'', ''78203'', ''78204'', ''78205'', ''78206'', ''78207'']),
     (''Travis County'', [''78701'', ''78702'', ''78703'', ''78704'', ''78705'', ''78728'', ''78729'']),
     (''Collin County'', [''75002'', ''75009'', ''75013'', ''75023'', ''75024'', ''75070'', ''75071'']),
     (''Hidalgo County'', [''78501'', ''78502'', ''78503'', ''78504'', ''78539'', ''78540'', ''78541'']),
     (''Fort Bend County'', [''77469'', ''77478'', ''77479'', ''77489'', ''77498'', ''77584'', ''77585'']),
     (''Denton County'', [''76201'', ''76205'', ''76226'', ''75019'', ''75022'', ''75028'', ''75067'']),
     (''Montgomery County'', [''77301'', ''77302'', ''77303'', ''77304'', ''77384'', ''77385'', ''77386''])]"

definition generate_zipcode_for_county :: "scraper \<Rightarrow> string \<Rightarrow> rat \<Rightarrow> error + string" where
  "generate_zipcode_for_county self cnty u =
     random_choice (dict_get zip_ranges cnty [''75001'']) u"

definition base_values :: "(string \<times> int) list" where
  "base_values = [
     (''Harris County'', 280000),
     (''Dallas County'', 320000),
     (''Tarrant County'', 280000),
     (''Bexar County'', 220000),
     (''Travis County'', 450000),
     (''Collin County'', 380000),
     (''Hidalgo County'', 150000),
     (''Fort Bend County'', 350000),
     (''Denton County'', 350000),
     (''Montgomery County'', 300000)]"

definition get_base_property_value :: "scraper \<Rightarrow> string \<Rightarrow> int" where
  "get_base_property_value self cnty = dict_get base_values cnty 250000"

section \<open>The lead scorer\<close>

text \<open>
  \<^verbatim>\<open>calculate_cad_lead_score(self, value, year_built, owner_name)\<close>. The method reads the
  clock: \<^verbatim>\<open>current_year = datetime.now().year\<close>; \<open>now\<close> is the clock value that call
  returns. \<open>score_before_clamp\<close> is the value of the local variable \<^verbatim>\<open>score\<close> when the
  final \<^verbatim>\<open>return min(score, 10)\<close> is reached.
\<close>

definition score_before_clamp :: "scraper \<Rightarrow> datetime \<Rightarrow> int \<Rightarrow> int \<Rightarrow> string \<Rightarrow> int" where
  "score_before_clamp self now val yr owner =
     (let score = 5;
          score = (if val > 500000 then score + 3
                   else if val > 300000 then score + 2
                   else if val > 200000 then score + 1
                   else score);
          current_year = dt_year now;
          age = current_year - yr;
          score = (if age > 15 then score + 3
                   else if age > 10 then score + 2
                   else if age > 5 then score + 1
                   else score);
          score = (if str_contains ''&'' owner then score + 1 else score)
      in score)"

definition calculate_cad_lead_score :: "scraper \<Rightarrow> datetime \<Rightarrow> int \<Rightarrow> int \<Rightarrow> string \<Rightarrow> int" where
  "calculate_cad_lead_score self now val yr owner =
     min (score_before_clamp self now val yr owner) 10"

section \<open>The generator\<close>

text \<open>
  \<^verbatim>\<open>create_texas_cad_sample_data\<close>. The values that the random module and the clock
  deliver while one property is built are collected in a record, one field for each
  call in the loop body, named after what the call is drawn for. \<open>t_score\<close> is the clock
  value seen by the call of the lead scorer and \<open>t_scraped\<close> the one seen by
  \<^verbatim>\<open>'scraped_at': datetime.now().isoformat()\<close>.
\<close>

record draws =
  u_first_name :: rat
  u_last_name :: rat
  u_joint :: rat
  u_spouse_first :: rat
  u_house_number :: rat
  u_street :: rat
  u_city :: rat
  u_zipcode :: rat
  u_year_built :: rat
  u_square_feet :: rat
  u_lot_size :: rat
  u_value :: rat
  u_account_a :: rat
  u_account_b :: rat
  u_property_type :: rat
  u_market_value :: rat
  u_homestead :: rat
  u_sale_year :: rat
  u_sale_month :: rat
  u_sale_day :: rat
  u_sale_price :: rat
  t_score :: datetime
  t_scraped :: datetime


definition first_names :: "string list" where
  "first_names = [
     ''James'', ''Mary'', ''John'', ''Patricia'', ''Robert'', ''Jennifer'', ''Michael'', ''Linda'',
     ''William'', ''Elizabeth'', ''David'', ''Barbara'', ''Richard'', ''Susan'', ''Joseph'', ''Jessica'',
     ''Thomas'', ''Sarah'', ''Christopher'', ''Karen'', ''Charles'', ''Nancy'', ''Daniel'', ''Lisa'']"

definition last_names :: "string list" where
  "last_names = [
     ''Smith'', ''Johnson'', ''Williams'', ''Brown'', ''Jones'', ''Garcia'', ''Miller'', ''Davis'',
     ''Rodriguez'', ''Martinez'', ''Hernandez'', ''Lopez'', ''Gonzalez'', ''Wilson'', ''Anderson'',
     ''Thomas'', ''Taylor'', ''Moore'', ''Jackson'', ''Martin'', ''Lee'', ''Perez'', ''Thompson'']"

definition street_names :: "string list" where
  "street_names = [
     ''Main St'', ''Oak Ave'', ''Elm St'', ''Park Blvd'', ''Cedar Ln'', ''Maple Dr'',
     ''Pine St'', ''Hill Rd'', ''Valley View'', ''Sunset Blvd'', ''Heritage Way'',
     ''Legacy Dr'', ''Champions Blvd'', ''Preston Rd'', ''Spring Valley'', ''Ranch Rd'',
     ''County Line Rd'', ''Farm to Market Rd'', ''State Highway'', ''Business Park Dr'']"

definition property_types :: "string list" where
  "property_types = [
     ''Single Family Residence'', ''Townhouse'', ''Condominium'',
     ''Mobile Home'', ''Duplex'', ''Commercial Property'']"

text \<open>
  \<^verbatim>\<open>property_count = min(max(int(population / 100000), 5), 15)\<close>; the divisor is a
  non-zero literal, so the division cannot raise.
\<close>

definition property_count :: "int \<Rightarrow> int" where
  "property_count pop = min (max (py_int (of_int pop / 100000)) 5) 15"

text \<open>
  The value computation of the loop body:
  \<^verbatim>\<open>age_factor = max(0.7, 1 - (2024 - year_built) * 0.01)\<close>,
  \<^verbatim>\<open>size_factor = square_feet / 2000\<close> and
  \<^verbatim>\<open>estimated_value = int(base_value * age_factor * size_factor * random.uniform(0.8, 1.3))\<close>.
\<close>

definition estimated_value_of :: "int \<Rightarrow> int \<Rightarrow> int \<Rightarrow> rat \<Rightarrow> int" where
  "estimated_value_of base_value yr sqft u =
     (let age_factor = max (7 / 10) (1 - of_int (2024 - yr) * (1 / 100));
          size_factor = of_int sqft / 2000
      in py_int (of_int base_value * age_factor * size_factor * uniform (8 / 10) (13 / 10) u))"

text \<open>
  The body of the inner loop up to the dict \<^verbatim>\<open>property_data\<close>. In the source
  \<^verbatim>\<open>property_types[0]\<close> is a non-empty literal, so that read cannot raise.
\<close>

definition property_data_of ::
  "scraper \<Rightarrow> string \<Rightarrow> cad_info \<Rightarrow> draws \<Rightarrow> error + property" where
  "property_data_of self cnty data d =
     (let cities = major_cities data in
      and_then (random_choice first_names (u_first_name d)) (\<lambda>first_name.
      and_then (random_choice last_names (u_last_name d)) (\<lambda>last_name.
      and_then
        (if u_joint d > 7 / 10
         then and_then (random_choice first_names (u_spouse_first d)) (\<lambda>spouse_first.
                Inr (first_name @ '' & '' @ spouse_first @ '' '' @ last_name))
         else Inr (first_name @ '' '' @ last_name)) (\<lambda>owner.
      let house_number = randint 100 9999 (u_house_number d) in
      and_then (random_choice street_names (u_street d)) (\<lambda>street.
      and_then (random_choice cities (u_city d)) (\<lambda>cty.
      and_then (generate_zipcode_for_county self cnty (u_zipcode d)) (\<lambda>zip.
      let address = str_int house_number @ '' '' @ street @ '', '' @ cty @ '', TX '' @ zip;
          yr = randint 1975 2023 (u_year_built d);
          sqft = randint 1200 4500 (u_square_feet d);
          lot_size = py_round2 (uniform (15 / 100) (12 / 10) (u_lot_size d));
          base_value = get_base_property_value self cnty;
          estimated_value = estimated_value_of base_value yr sqft (u_value d);
          account = str_int (randint 10000 99999 (u_account_a d)) @ ''-'' @
                    str_int (randint 100 999 (u_account_b d))
      in
      and_then (random_choice property_types (u_property_type d)) (\<lambda>ptype.
      and_then
        (if str_contains ''Residence'' (property_types ! 0)
         then random_choice [True, False] (u_homestead d) else Inr False) (\<lambda>homestead.
      Inr \<lparr>account_number = account,
           owner_name = owner,
           property_address = address,
           city = cty,
           county = cnty,
           zipcode = zip,
           property_type = ptype,
           year_built = yr,
           square_feet = sqft,
           lot_size_acres = lot_size,
           appraised_value = estimated_value,
           market_value =
             py_int (of_int estimated_value * uniform (95 / 100) (105 / 100) (u_market_value d)),
           homestead_exemption = homestead,
           last_sale_date =
             str_int (randint 2018 2024 (u_sale_year d)) @ ''-'' @
             fmt_0d 2 (randint 1 12 (u_sale_month d)) @ ''-'' @
             fmt_0d 2 (randint 1 28 (u_sale_day d)),
           last_sale_price =
             py_int (of_int estimated_value * uniform (85 / 100) (115 / 100) (u_sale_price d)),
           cad_url = url data @ ''/property-detail/'' @ account,
           lead_score = calculate_cad_lead_score self (t_score d) estimated_value yr owner,
           data_source = ''CAD'',
           scraped_at = isoformat (t_scraped d)\<rparr>)))))))))"

text \<open>The renamed subset of a property that is forwarded to the external sink.\<close>

definition supabase_data_of :: "property \<Rightarrow> (string \<times> pyval) list" where
  "supabase_data_of p = [
     (''account_number'', PStr (account_number p)),
     (''owner_name'', PStr (owner_name p)),
     (''address_text'', PStr (property_address p)),
     (''city'', PStr (city p)),
     (''county'', PStr (county p)),
     (''zip_code'', PStr (zipcode p)),
     (''property_type'', PStr (property_type p)),
     (''year_built'', PInt (year_built p)),
     (''square_feet'', PInt (square_feet p)),
     (''lot_size_acres'', PFloat (lot_size_acres p)),
     (''appraised_value'', PInt (appraised_value p)),
     (''market_value'', PInt (market_value p)),
     (''homestead_exemption'', PBool (homestead_exemption p)),
     (''last_sale_date'', PStr (last_sale_date p)),
     (''last_sale_price'', PInt (last_sale_price p)),
     (''cad_url'', PStr (cad_url p)),
     (''lead_score'', PInt (lead_score p))]"

text \<open>
  The state of the generator: the list \<^verbatim>\<open>sample_properties\<close> and the calls made to the
  external sink \<^verbatim>\<open>insert_lead\<close> (imported from \<^verbatim>\<open>supabase_config\<close>), each with its table name
  and row. The result of \<^verbatim>\<open>insert_lead\<close> selects a debug log line only; logging is not
  modelled.

  The inner loop \<^verbatim>\<open>for i in range(property_count)\<close> runs over the list of its indices;
  \<open>rnd cnty i\<close> is what the random module and the clock deliver in iteration \<open>i\<close> of
  county \<open>cnty\<close>. The outer loop runs over \<^verbatim>\<open>self.texas_cads.items()\<close>.
\<close>

record generated =
  sample_properties :: "property list"
  sink_calls :: "(string \<times> (string \<times> pyval) list) list"

fun property_loop ::
  "scraper \<Rightarrow> (string \<Rightarrow> nat \<Rightarrow> draws) \<Rightarrow> string \<Rightarrow> cad_info \<Rightarrow> nat list \<Rightarrow> generated \<Rightarrow>
   error + generated" where
  "property_loop self rnd cnty data [] g = Inr g"
| "property_loop self rnd cnty data (i # is) g =
     and_then (property_data_of self cnty data (rnd cnty i)) (\<lambda>property_data.
       property_loop self rnd cnty data is
         \<lparr>sample_properties = sample_properties g @ [property_data],
          sink_calls = sink_calls g @ [(''cad_leads'', supabase_data_of property_data)]\<rparr>)"

fun county_loop ::
  "scraper \<Rightarrow> (string \<Rightarrow> nat \<Rightarrow> draws) \<Rightarrow> (string \<times> cad_info) list \<Rightarrow> generated \<Rightarrow>
   error + generated" where
  "county_loop self rnd [] g = Inr g"
| "county_loop self rnd ((cnty, data) # items) g =
     and_then
       (property_loop self rnd cnty data [0..<nat (property_count (population data))] g)
       (county_loop self rnd items)"

definition create_texas_cad_sample_data ::
  "scraper \<Rightarrow> (string \<Rightarrow> nat \<Rightarrow> draws) \<Rightarrow> error + generated" where
  "create_texas_cad_sample_data self rnd =
     county_loop self rnd (texas_cads self) \<lparr>sample_properties = [], sink_calls = []\<rparr>"

text \<open>
  \<^verbatim>\<open>scrape_all_texas_cads\<close>: the generated list becomes \<^verbatim>\<open>self.all_properties\<close>.
\<close>

definition scrape_all_texas_cads ::
  "scraper \<Rightarrow> (string \<Rightarrow> nat \<Rightarrow> draws) \<Rightarrow> error + scraper \<times> generated" where
  "scrape_all_texas_cads self rnd =
     and_then (create_texas_cad_sample_data self rnd) (\<lambda>g.
       Inr (self\<lparr>all_properties := sample_properties g\<rparr>, g))"

section \<open>The aggregator\<close>

text \<open>
  \<^verbatim>\<open>get_cad_stats\<close>. The local variables updated by the loop over
  \<^verbatim>\<open>self.all_properties\<close> form the record \<open>tally\<close>. Every property carries all of its keys,
  so \<^verbatim>\<open>prop.get('county', 'Unknown')\<close>, \<^verbatim>\<open>prop.get('appraised_value', 0)\<close>,
  \<^verbatim>\<open>prop.get('lead_score', 5)\<close> and \<^verbatim>\<open>prop.get('homestead_exemption')\<close> read the field.
  \<open>now\<close> is the clock value for \<^verbatim>\<open>'scraped_at'\<close>. The result is a dict; for an empty
  \<^verbatim>\<open>self.all_properties\<close> the method returns the empty dict \<^verbatim>\<open>{}\<close> at once.
\<close>

record tally =
  counties :: "(string \<times> int) list"
  value_ranges :: "(string \<times> int) list"
  lead_scores :: "(string \<times> int) list"
  homestead_count :: int
  total_value :: int

definition tally_init :: tally where
  "tally_init = \<lparr>
     counties = [],
     value_ranges = [(''under_200k'', 0), (''200k_400k'', 0), (''400k_600k'', 0), (''over_600k'', 0)],
     lead_scores = [(''high'', 0), (''medium'', 0), (''low'', 0)],
     homestead_count = 0,
     total_value = 0\<rparr>"

definition tally_step :: "tally \<Rightarrow> property \<Rightarrow> error + tally" where
  "tally_step t prop =
     (let cnty = county prop;
          counties' = dict_set (counties t) cnty (dict_get (counties t) cnty 0 + 1);
          val = appraised_value prop;
          total_value' = total_value t + val
      in
      and_then
        (if val < 200000 then dict_incr (value_ranges t) ''under_200k''
         else if val < 400000 then dict_incr (value_ranges t) ''200k_400k''
         else if val < 600000 then dict_incr (value_ranges t) ''400k_600k''
         else dict_incr (value_ranges t) ''over_600k'') (\<lambda>value_ranges'.
      and_then
        (if lead_score prop \<ge> 8 then dict_incr (lead_scores t) ''high''
         else if lead_score prop \<ge> 6 then dict_incr (lead_scores t) ''medium''
         else dict_incr (lead_scores t) ''low'') (\<lambda>lead_scores'.
      Inr \<lparr>counties = counties',
           value_ranges = value_ranges',
           lead_scores = lead_scores',
           homestead_count =
             (if homestead_exemption prop then homestead_count t + 1 else homestead_count t),
           total_value = total_value'\<rparr>)))"

fun tally_loop :: "tally \<Rightarrow> property list \<Rightarrow> error + tally" where
  "tally_loop t [] = Inr t"
| "tally_loop t (prop # props) = and_then (tally_step t prop) (\<lambda>t'. tally_loop t' props)"

definition get_cad_stats :: "scraper \<Rightarrow> datetime \<Rightarrow> error + (string \<times> pyval) list" where
  "get_cad_stats self now =
     (if all_properties self = [] then Inr []
      else
        and_then (tally_loop tally_init (all_properties self)) (\<lambda>t.
        and_then
          (if all_properties self \<noteq> []
           then and_then (py_truediv (total_value t) (int (length (all_properties self))))
                  (\<lambda>q. Inr (py_int q))
           else Inr 0) (\<lambda>average.
        Inr [(''total_properties'', PInt (int (length (all_properties self)))),
             (''total_appraised_value'', PInt (total_value t)),
             (''average_value'', PInt average),
             (''counties'', PCounts (counties t)),
             (''value_ranges'', PCounts (value_ranges t)),
             (''lead_scores'', PCounts (lead_scores t)),
             (''homestead_properties'', PInt (homestead_count t)),
             (''scraped_at'', PStr (isoformat now))])))"

section \<open>The exporter\<close>

text \<open>
  \<^verbatim>\<open>save_to_csv\<close>. The file system maps a file name to the rows written to the file, a
  row being the list of its cells (the text form of a cell and the quoting of the csv
  module are not modelled); \<open>can_open\<close> tells whether \<^verbatim>\<open>open(filename, 'w')\<close> succeeds.
  Opening for writing creates the file empty. \<open>property_items\<close> is the dict view of a
  property, its keys in the order in which \<^verbatim>\<open>property_data\<close> lists them.
\<close>

definition property_items :: "property \<Rightarrow> (string \<times> pyval) list" where
  "property_items p = [
     (''account_number'', PStr (account_number p)),
     (''owner_name'', PStr (owner_name p)),
     (''property_address'', PStr (property_address p)),
     (''city'', PStr (city p)),
     (''county'', PStr (county p)),
     (''zipcode'', PStr (zipcode p)),
     (''property_type'', PStr (property_type p)),
     (''year_built'', PInt (year_built p)),
     (''square_feet'', PInt (square_feet p)),
     (''lot_size_acres'', PFloat (lot_size_acres p)),
     (''appraised_value'', PInt (appraised_value p)),
     (''market_value'', PInt (market_value p)),
     (''homestead_exemption'', PBool (homestead_exemption p)),
     (''last_sale_date'', PStr (last_sale_date p)),
     (''last_sale_price'', PInt (last_sale_price p)),
     (''cad_url'', PStr (cad_url p)),
     (''lead_score'', PInt (lead_score p)),
     (''data_source'', PStr (data_source p)),
     (''scraped_at'', PStr (scraped_at p))]"

record filesystem =
  files :: "string \<Rightarrow> pyval list list option"
  can_open :: "string \<Rightarrow> bool"

definition open_w :: "filesystem \<Rightarrow> string \<Rightarrow> error + filesystem" where
  "open_w fs filename =
     (if can_open fs filename then Inr (fs\<lparr>files := (files fs)(filename \<mapsto> [])\<rparr>)
      else Inl OSError)"

definition write_rows :: "filesystem \<Rightarrow> string \<Rightarrow> pyval list list \<Rightarrow> filesystem" where
  "write_rows fs filename rs =
     fs\<lparr>files := (files fs)(filename \<mapsto> (case files fs filename of None \<Rightarrow> [] | Some old \<Rightarrow> old) @ rs)\<rparr>"

definition save_to_csv :: "scraper \<Rightarrow> string \<Rightarrow> filesystem \<Rightarrow> error + filesystem" where
  "save_to_csv self filename fs =
     (if all_properties self = [] then Inr fs
      else
        and_then (first_item (all_properties self)) (\<lambda>first.
        let fieldnames = map fst (property_items first) in
        and_then (open_w fs filename) (\<lambda>csvfile.
        let csvfile = write_rows csvfile filename [map PStr fieldnames];
            csvfile = write_rows csvfile filename
              (map (\<lambda>p. map (\<lambda>k. dict_get (property_items p) k (PStr [])) fieldnames)
                 (all_properties self))
        in Inr csvfile)))"

section \<open>Properties of the lead scorer\<close>

lemma str_contains_single: "str_contains [c] s \<longleftrightarrow> c \<in> set s"
proof (induction s)
  case Nil
  show ?case by simp
next
  case (Cons d ds)
  have "starts_with [c] (d # ds) \<longleftrightarrow> c = d" by simp
  with Cons show ?case by auto
qed

text \<open>The score before the clamp is the base 5 plus three adjustments.\<close>

lemma score_before_clamp_sum:
  "score_before_clamp self now val yr owner =
     5 + (if val > 500000 then 3 else if val > 300000 then 2 else if val > 200000 then 1 else 0)
       + (if dt_year now - yr > 15 then 3 else if dt_year now - yr > 10 then 2
          else if dt_year now - yr > 5 then 1 else 0)
       + (if str_contains ''&'' owner then 1 else 0)"
  by (simp add: score_before_clamp_def Let_def)

lemma score_before_clamp_lower: "5 \<le> score_before_clamp self now val yr owner"
  by (simp add: score_before_clamp_sum)

lemma value_points_mono:
  "(va::int) \<le> vb \<Longrightarrow>
   (if va > 500000 then 3 else if va > 300000 then 2 else if va > 200000 then 1 else (0::int))
   \<le> (if vb > 500000 then 3 else if vb > 300000 then 2 else if vb > 200000 then 1 else 0)"
  by simp

lemma age_points_mono:
  "(aa::int) \<le> ab \<Longrightarrow>
   (if aa > 15 then 3 else if aa > 10 then 2 else if aa > 5 then 1 else (0::int))
   \<le> (if ab > 15 then 3 else if ab > 10 then 2 else if ab > 5 then 1 else 0)"
  by simp

lemma score_mono_value:
  assumes "va \<le> vb"
  shows "calculate_cad_lead_score self now va yr owner \<le>
         calculate_cad_lead_score self now vb yr owner"
proof -
  have "score_before_clamp self now va yr owner \<le> score_before_clamp self now vb yr owner"
    unfolding score_before_clamp_sum using value_points_mono [OF assms] by linarith
  then show ?thesis by (simp add: calculate_cad_lead_score_def)
qed

lemma score_mono_age:
  assumes "dt_year now - ya \<le> dt_year now - yb"
  shows "calculate_cad_lead_score self now val ya owner \<le>
         calculate_cad_lead_score self now val yb owner"
proof -
  have "score_before_clamp self now val ya owner \<le> score_before_clamp self now val yb owner"
    unfolding score_before_clamp_sum using age_points_mono [OF assms] by linarith
  then show ?thesis by (simp add: calculate_cad_lead_score_def)
qed

lemma score_joint_marker:
  assumes "str_contains ''&'' na" and "\<not> str_contains ''&'' nb"
  shows "score_before_clamp self now val yr na = score_before_clamp self now val yr nb + 1"
  unfolding score_before_clamp_sum using assms by simp

text \<open>
  C4. For every value, year built and owner name, and whatever the clock reads, the lead
  scorer returns an integer between 5 and 10, hence between 1 and 10. The upper bound is
  the clamp \<^verbatim>\<open>min(score, 10)\<close>; the lower bound needs no clamp, since the score starts
  at 5 and no adjustment is negative.
\<close>

theorem lead_score_range:
  "5 \<le> calculate_cad_lead_score self now val yr owner \<and>
   calculate_cad_lead_score self now val yr owner \<le> 10 \<and>
   1 \<le> calculate_cad_lead_score self now val yr owner \<and>
   5 \<le> score_before_clamp self now val yr owner"
  using score_before_clamp_lower [of self now val yr owner]
  by (simp add: calculate_cad_lead_score_def)

text \<open>
  C5, as the code has it. The claim that the score is a function of its three arguments
  alone fails: the method reads the year from the clock, and the same three arguments
  score 7 on 31 December 2024 and 8 on 1 January 2025.
\<close>

theorem lead_score_clock_counterexample:
  "calculate_cad_lead_score TexasCADScraper
     \<lparr>dt_year = 2024, dt_month = 12, dt_day = 31, dt_hour = 23, dt_minute = 59, dt_second = 59,
      dt_microsecond = 0\<rparr> 100000 2009 ''Jane Doe'' \<noteq>
   calculate_cad_lead_score TexasCADScraper
     \<lparr>dt_year = 2025, dt_month = 1, dt_day = 1, dt_hour = 0, dt_minute = 0, dt_second = 1,
      dt_microsecond = 0\<rparr> 100000 2009 ''Jane Doe''"
  by (simp add: calculate_cad_lead_score_def score_before_clamp_def Let_def str_contains_single)

text \<open>
  C5, amended. The lead score is determined by its three arguments and the calendar year
  of the clock: two calls with the same value, year built and owner name return the same
  score whenever the clock shows the same year, whatever the rest of the clock reading and
  the state of the scraper object are. No random draw enters the score.
\<close>

theorem lead_score_depends_on_inputs_and_year:
  assumes "dt_year nowa = dt_year nowb"
  shows "calculate_cad_lead_score selfa nowa val yr owner =
         calculate_cad_lead_score selfb nowb val yr owner"
  using assms by (simp add: calculate_cad_lead_score_def score_before_clamp_def)

theorem lead_score_depends_on_inputs_and_year_witness:
  "calculate_cad_lead_score TexasCADScraper
     \<lparr>dt_year = 2024, dt_month = 1, dt_day = 2, dt_hour = 3, dt_minute = 4, dt_second = 5,
      dt_microsecond = 6\<rparr> 100000 2009 ''Jane Doe'' =
   calculate_cad_lead_score (TexasCADScraper\<lparr>texas_cads := []\<rparr>)
     \<lparr>dt_year = 2024, dt_month = 12, dt_day = 31, dt_hour = 23, dt_minute = 59, dt_second = 59,
      dt_microsecond = 0\<rparr> 100000 2009 ''Jane Doe''"
  by (rule lead_score_depends_on_inputs_and_year) simp

text \<open>
  C6, as the code has it. The claim that the joint-ownership marker adds 1 to the lead
  score fails where the clamp applies: at a clock year of 2024, a value of 600000 and a
  year built of 2000 the score is 10 with the marker and 10 without it.
\<close>

theorem joint_marker_counterexample:
  "calculate_cad_lead_score TexasCADScraper
     \<lparr>dt_year = 2024, dt_month = 6, dt_day = 15, dt_hour = 12, dt_minute = 0, dt_second = 0,
      dt_microsecond = 0\<rparr> 600000 2000 ''John & Mary Smith'' \<noteq>
   calculate_cad_lead_score TexasCADScraper
     \<lparr>dt_year = 2024, dt_month = 6, dt_day = 15, dt_hour = 12, dt_minute = 0, dt_second = 0,
      dt_microsecond = 0\<rparr> 600000 2000 ''John Smith'' + 1"
  by (simp add: calculate_cad_lead_score_def score_before_clamp_def Let_def str_contains_single)

text \<open>
  C6, amended. For a fixed clock, year built and owner name the lead score is
  non-decreasing in the appraised value; for a fixed clock, value and owner name it is
  non-decreasing in the age of the property (the clock year minus the year built); and an
  owner name with the marker \<^verbatim>\<open>&\<close> has a score before the clamp that is 1 more than that
  of a name without it, so that the returned score is the smaller of 10 and the other
  score plus 1.
\<close>

theorem lead_score_monotone:
  "(va \<le> vb \<longrightarrow>
      calculate_cad_lead_score self now va yr owner \<le>
      calculate_cad_lead_score self now vb yr owner) \<and>
   (dt_year now - ya \<le> dt_year now - yb \<longrightarrow>
      calculate_cad_lead_score self now val ya owner \<le>
      calculate_cad_lead_score self now val yb owner) \<and>
   (str_contains ''&'' na \<and> \<not> str_contains ''&'' nb \<longrightarrow>
      score_before_clamp self now val yr na = score_before_clamp self now val yr nb + 1 \<and>
      calculate_cad_lead_score self now val yr na =
        min (calculate_cad_lead_score self now val yr nb + 1) 10)"
proof (intro conjI impI)
  assume "va \<le> vb"
  then show "calculate_cad_lead_score self now va yr owner \<le>
      calculate_cad_lead_score self now vb yr owner" by (rule score_mono_value)
next
  assume "dt_year now - ya \<le> dt_year now - yb"
  then show "calculate_cad_lead_score self now val ya owner \<le>
      calculate_cad_lead_score self now val yb owner" by (rule score_mono_age)
next
  assume "str_contains ''&'' na \<and> \<not> str_contains ''&'' nb"
  then show "score_before_clamp self now val yr na = score_before_clamp self now val yr nb + 1"
    using score_joint_marker by blast
next
  assume "str_contains ''&'' na \<and> \<not> str_contains ''&'' nb"
  then have "score_before_clamp self now val yr na = score_before_clamp self now val yr nb + 1"
    using score_joint_marker by blast
  then show "calculate_cad_lead_score self now val yr na =
        min (calculate_cad_lead_score self now val yr nb + 1) 10"
    by (simp add: calculate_cad_lead_score_def)
qed

theorem lead_score_monotone_witness:
  "calculate_cad_lead_score TexasCADScraper
     \<lparr>dt_year = 2024, dt_month = 6, dt_day = 15, dt_hour = 12, dt_minute = 0, dt_second = 0,
      dt_microsecond = 0\<rparr> 250000 2000 ''Jane Doe'' \<le>
   calculate_cad_lead_score TexasCADScraper
     \<lparr>dt_year = 2024, dt_month = 6, dt_day = 15, dt_hour = 12, dt_minute = 0, dt_second = 0,
      dt_microsecond = 0\<rparr> 600000 2000 ''Jane Doe'' \<and>
   calculate_cad_lead_score TexasCADScraper
     \<lparr>dt_year = 2024, dt_month = 6, dt_day = 15, dt_hour = 12, dt_minute = 0, dt_second = 0,
      dt_microsecond = 0\<rparr> 150000 2020 ''Jane Doe'' \<le>
   calculate_cad_lead_score TexasCADScraper
     \<lparr>dt_year = 2024, dt_month = 6, dt_day = 15, dt_hour = 12, dt_minute = 0, dt_second = 0,
      dt_microsecond = 0\<rparr> 150000 2000 ''Jane Doe'' \<and>
   calculate_cad_lead_score TexasCADScraper
     \<lparr>dt_year = 2024, dt_month = 6, dt_day = 15, dt_hour = 12, dt_minute = 0, dt_second = 0,
      dt_microsecond = 0\<rparr> 150000 2022 ''John & Mary Smith'' =
   min (calculate_cad_lead_score TexasCADScraper
     \<lparr>dt_year = 2024, dt_month = 6, dt_day = 15, dt_hour = 12, dt_minute = 0, dt_second = 0,
      dt_microsecond = 0\<rparr> 150000 2022 ''John Smith'' + 1) 10"
  using lead_score_monotone [where self = TexasCADScraper and now = "\<lparr>dt_year = 2024, dt_month = 6, dt_day = 15, dt_hour = 12, dt_minute = 0, dt_second = 0,
      dt_microsecond = 0\<rparr>"
      and va = 250000 and vb = 600000 and ya = 2020 and yb = 2000
      and na = "''John & Mary Smith''" and nb = "''John Smith''"
      and owner = "''Jane Doe''" and yr = 2000 and val = 150000]
    lead_score_monotone [where self = TexasCADScraper and now = "\<lparr>dt_year = 2024, dt_month = 6, dt_day = 15, dt_hour = 12, dt_minute = 0, dt_second = 0,
      dt_microsecond = 0\<rparr>"
      and na = "''John & Mary Smith''" and nb = "''John Smith''"
      and yr = 2022 and val = 150000 and va = 0 and vb = 0 and ya = 0 and yb = 0
      and owner = "''Jane Doe''"]
  by (simp add: str_contains_single)

text \<open>
  C9. With the clock in 2024, a value of 600000, a year built of 2000 and the owner
  \<^verbatim>\<open>John & Mary Smith\<close> give 5 + 3 + 3 + 1 = 12 before the clamp and a score of 10; a value
  of 150000, a year built of 2022 and the owner \<^verbatim>\<open>Jane Doe\<close> give 5 + 0 + 0 + 0 and a
  score of 5.
\<close>

theorem scoring_examples_2024:
  assumes "dt_year now = 2024"
  shows "score_before_clamp self now 600000 2000 ''John & Mary Smith'' = 5 + 3 + 3 + 1 \<and>
         calculate_cad_lead_score self now 600000 2000 ''John & Mary Smith'' = 10 \<and>
         score_before_clamp self now 150000 2022 ''Jane Doe'' = 5 + 0 + 0 + 0 \<and>
         calculate_cad_lead_score self now 150000 2022 ''Jane Doe'' = 5"
  using assms
  by (simp add: calculate_cad_lead_score_def score_before_clamp_def Let_def str_contains_single)

theorem scoring_examples_2024_witness:
  "calculate_cad_lead_score TexasCADScraper
     \<lparr>dt_year = 2024, dt_month = 6, dt_day = 15, dt_hour = 12, dt_minute = 0, dt_second = 0,
      dt_microsecond = 0\<rparr> 600000 2000 ''John & Mary Smith'' = 10 \<and>
   calculate_cad_lead_score TexasCADScraper
     \<lparr>dt_year = 2024, dt_month = 6, dt_day = 15, dt_hour = 12, dt_minute = 0, dt_second = 0,
      dt_microsecond = 0\<rparr> 150000 2022 ''Jane Doe'' = 5"
  using scoring_examples_2024 [of "\<lparr>dt_year = 2024, dt_month = 6, dt_day = 15, dt_hour = 12, dt_minute = 0, dt_second = 0,
      dt_microsecond = 0\<rparr>" TexasCADScraper]
  by simp

section \<open>Properties of the county lookups and of the generator\<close>

lemma randbelow_less:
  assumes "unit_interval u" and "0 < n"
  shows "randbelow n u < n"
proof -
  have "0 \<le> of_nat n * u" using assms by (simp add: unit_interval_def)
  moreover have "of_nat n * u < of_nat n" using assms by (simp add: unit_interval_def)
  then have "\<lfloor>of_nat n * u\<rfloor> < int n" by (simp add: floor_less_iff)
  ultimately show ?thesis by (simp add: randbelow_def nat_less_iff)
qed

lemma random_choice_Inr:
  "seq \<noteq> [] \<Longrightarrow> random_choice seq u = Inr (seq ! randbelow (length seq) u)"
  by (simp add: random_choice_def)

lemma random_choice_member:
  assumes "seq \<noteq> []" and "unit_interval u"
  shows "\<exists>x. random_choice seq u = Inr x \<and> x \<in> set seq"
  using assms randbelow_less [of u "length seq"] by (simp add: random_choice_def)

lemma zip_pool_nonempty: "dict_get zip_ranges cnty [''75001''] \<noteq> []"
  by (simp add: dict_get_def zip_ranges_def)




lemma name_lists_nonempty:
  "first_names \<noteq> []" "last_names \<noteq> []" "street_names \<noteq> []" "property_types \<noteq> []"
  by (simp_all add: first_names_def last_names_def street_names_def property_types_def)

lemma residence_in_first_type: "str_contains ''Residence'' (property_types ! 0)"
  by (simp add: property_types_def)

lemma and_then_Inr: "and_then (Inr x) f = f x"
  by (simp add: and_then_def)

lemma property_data_of_fields:
  assumes "major_cities data \<noteq> []"
  shows "\<exists>p. property_data_of self cnty data d = Inr p \<and>
     county p = cnty \<and>
     zipcode p = dict_get zip_ranges cnty [''75001''] !
                   randbelow (length (dict_get zip_ranges cnty [''75001''])) (u_zipcode d) \<and>
     year_built p = randint 1975 2023 (u_year_built d) \<and>
     square_feet p = randint 1200 4500 (u_square_feet d) \<and>
     appraised_value p =
       estimated_value_of (get_base_property_value self cnty) (year_built p) (square_feet p)
         (u_value d) \<and>
     market_value p =
       py_int (of_int (appraised_value p) * uniform (95 / 100) (105 / 100) (u_market_value d)) \<and>
     lead_score p =
       calculate_cad_lead_score self (t_score d) (appraised_value p) (year_built p) (owner_name p)"
  unfolding property_data_of_def Let_def generate_zipcode_for_county_def
  by (simp add: random_choice_Inr name_lists_nonempty assms zip_pool_nonempty
        residence_in_first_type and_then_Inr)






lemma property_loop_Inr:
  assumes "major_cities data \<noteq> []"
  shows "\<exists>g'. property_loop self rnd cnty data idxs g = Inr g' \<and>
     sample_properties g' =
       sample_properties g @ map (\<lambda>i. projr (property_data_of self cnty data (rnd cnty i))) idxs"
proof (induction idxs arbitrary: g)
  case Nil
  show ?case by simp
next
  case (Cons i idxs)
  obtain p where p: "property_data_of self cnty data (rnd cnty i) = Inr p"
    using property_data_of_fields [OF assms] by blast
  show ?case
    using Cons.IH [of "\<lparr>sample_properties = sample_properties g @ [p],
          sink_calls = sink_calls g @ [(''cad_leads'', supabase_data_of p)]\<rparr>"] p
    by (simp add: and_then_def)
qed

lemma county_loop_Inr:
  assumes "\<forall>(c, d) \<in> set items. major_cities d \<noteq> []"
  shows "\<exists>g'. county_loop self rnd items g = Inr g' \<and>
     sample_properties g' =
       sample_properties g @
       concat (map (\<lambda>(c, d). map (\<lambda>i. projr (property_data_of self c d (rnd c i)))
                     [0..<nat (property_count (population d))]) items)"
  using assms
proof (induction items arbitrary: g)
  case Nil
  show ?case by simp
next
  case (Cons cd items)
  obtain c d where cd: "cd = (c, d)" by (cases cd)
  have cities: "major_cities d \<noteq> []" using Cons.prems cd by simp
  obtain g1 where g1: "property_loop self rnd c d [0..<nat (property_count (population d))] g = Inr g1"
    and sp1: "sample_properties g1 = sample_properties g @
       map (\<lambda>i. projr (property_data_of self c d (rnd c i))) [0..<nat (property_count (population d))]"
    using property_loop_Inr [OF cities] by blast
  have rest: "\<forall>(c, d) \<in> set items. major_cities d \<noteq> []" using Cons.prems by simp
  from Cons.IH [OF rest, of g1]
  obtain g' where g': "county_loop self rnd items g1 = Inr g'"
    and sp': "sample_properties g' = sample_properties g1 @
       concat (map (\<lambda>(c, d). map (\<lambda>i. projr (property_data_of self c d (rnd c i)))
                     [0..<nat (property_count (population d))]) items)"
    by blast
  have "county_loop self rnd (cd # items) g = Inr g'"
    using g1 g' cd by (simp add: and_then_def)
  then show ?case using sp' sp1 cd by simp
qed


lemma property_count_clamp: "property_count pop = min (max (pop div 100000) 5) 15"
proof (cases "0 \<le> pop")
  case True
  have "\<lfloor>(of_int pop :: rat) / of_int 100000\<rfloor> = pop div 100000"
    by (rule floor_divide_of_int_eq)
  then have "py_int (of_int pop / 100000) = pop div 100000"
    using True by (simp add: py_int_def)
  then show ?thesis by (simp add: property_count_def)
next
  case False
  then have neg: "(of_int pop :: rat) / 100000 < 0" by simp
  then have "\<lceil>(of_int pop :: rat) / 100000\<rceil> \<le> 0" by (simp add: ceiling_le_zero)
  then have a: "py_int (of_int pop / 100000) \<le> 0" using neg by (simp add: py_int_def)
  have b: "pop div 100000 < 0" using False by (simp add: div_neg_pos_less0)
  show ?thesis using a b by (simp add: property_count_def)
qed

lemma county_of_generated:
  assumes "major_cities d \<noteq> []"
  shows "county (projr (property_data_of self c d x)) = c"
  using property_data_of_fields [OF assms, of self c x] by auto

lemma block_other_county:
  assumes "major_cities d \<noteq> []" and "c' \<noteq> c"
  shows "filter (\<lambda>p. county p = c)
           (map (\<lambda>i. projr (property_data_of self c' d (rnd c' i))) idxs) = []"
  using assms by (simp add: filter_empty_conv county_of_generated)

lemma block_same_county:
  assumes "major_cities d \<noteq> []"
  shows "filter (\<lambda>p. county p = c)
           (map (\<lambda>i. projr (property_data_of self c d (rnd c i))) idxs) =
         map (\<lambda>i. projr (property_data_of self c d (rnd c i))) idxs"
  using assms by (simp add: filter_id_conv county_of_generated)

lemma absent_county_count:
  assumes "\<forall>(c, d) \<in> set items. major_cities d \<noteq> []" and "c \<notin> fst ` set items"
  shows "filter (\<lambda>p. county p = c)
           (concat (map (\<lambda>(c, d). map (\<lambda>i. projr (property_data_of self c d (rnd c i)))
                     [0..<nat (property_count (population d))]) items)) = []"
  using assms
proof (induction items)
  case Nil
  show ?case by simp
next
  case (Cons cd items)
  obtain c' d' where cd: "cd = (c', d')" by (cases cd)
  have "c' \<noteq> c" using Cons.prems(2) cd by auto
  moreover have "major_cities d' \<noteq> []" using Cons.prems(1) cd by simp
  ultimately have "filter (\<lambda>p. county p = c)
           (map (\<lambda>i. projr (property_data_of self c' d' (rnd c' i)))
              [0..<nat (property_count (population d'))]) = []"
    by (rule block_other_county [rotated])
  moreover have "filter (\<lambda>p. county p = c)
           (concat (map (\<lambda>(c, d). map (\<lambda>i. projr (property_data_of self c d (rnd c i)))
                     [0..<nat (property_count (population d))]) items)) = []"
    using Cons by auto
  ultimately show ?case using cd by simp
qed

lemma county_count:
  assumes "\<forall>(c, d) \<in> set items. major_cities d \<noteq> []"
    and "distinct (map fst items)" and "(c, d) \<in> set items"
  shows "length (filter (\<lambda>p. county p = c)
           (concat (map (\<lambda>(c, d). map (\<lambda>i. projr (property_data_of self c d (rnd c i)))
                     [0..<nat (property_count (population d))]) items))) =
         nat (property_count (population d))"
  using assms
proof (induction items)
  case Nil
  then show ?case by simp
next
  case (Cons cd items)
  obtain c' d' where cd: "cd = (c', d')" by (cases cd)
  have cities': "major_cities d' \<noteq> []" using Cons.prems(1) cd by simp
  have rest: "\<forall>(c, d) \<in> set items. major_cities d \<noteq> []" using Cons.prems(1) by simp
  have dist: "distinct (map fst items)" and fresh: "c' \<notin> fst ` set items"
    using Cons.prems(2) cd by simp_all
  show ?case
  proof (cases "c' = c")
    case True
    have "d' = d"
    proof (rule ccontr)
      assume "d' \<noteq> d"
      then have "(c, d) \<in> set items" using Cons.prems(3) cd True by simp
      then have "c \<in> fst ` set items" by force
      then show False using fresh True by simp
    qed
    have "c \<notin> fst ` set items" using fresh True by simp
    from absent_county_count [OF rest this]
    have tail: "filter (\<lambda>p. county p = c)
           (concat (map (\<lambda>(c, d). map (\<lambda>i. projr (property_data_of self c d (rnd c i)))
                     [0..<nat (property_count (population d))]) items)) = []" .
    show ?thesis
      using cd True \<open>d' = d\<close> tail block_same_county [OF cities', of c self rnd] by simp
  next
    case False
    then have "(c, d) \<in> set items" using Cons.prems(3) cd by simp
    from Cons.IH [OF rest dist this]
    have ih: "length (filter (\<lambda>p. county p = c)
           (concat (map (\<lambda>(c, d). map (\<lambda>i. projr (property_data_of self c d (rnd c i)))
                     [0..<nat (property_count (population d))]) items))) =
         nat (property_count (population d))" .
    show ?thesis
      using cd ih block_other_county [OF cities' False, of self rnd] by simp
  qed
qed

lemma configured_table:
  "\<forall>(c, d) \<in> set (texas_cads TexasCADScraper). major_cities d \<noteq> []"
  "distinct (map fst (texas_cads TexasCADScraper))"
  by (simp_all add: TexasCADScraper_def)

lemma configured_generator:
  "\<exists>g. create_texas_cad_sample_data TexasCADScraper rnd = Inr g \<and>
     sample_properties g =
       concat (map (\<lambda>(c, d). map (\<lambda>i. projr (property_data_of TexasCADScraper c d (rnd c i)))
                     [0..<nat (property_count (population d))]) (texas_cads TexasCADScraper))"
  using county_loop_Inr [OF configured_table(1), of TexasCADScraper rnd
      "\<lparr>sample_properties = [], sink_calls = []\<rparr>"]
  by (auto simp add: create_texas_cad_sample_data_def)

text \<open>
  C7. The generator returns a list in which, for every county of the configured table,
  the number of properties of that county is the population divided by 100000 (integer
  division) and clamped to the range from 5 to 15; for Montgomery County, with a
  population of 620443, this number is 6.
\<close>

theorem record_count_per_county:
  "\<exists>g. create_texas_cad_sample_data TexasCADScraper rnd = Inr g \<and>
     (\<forall>(c, d) \<in> set (texas_cads TexasCADScraper).
        int (length (filter (\<lambda>p. county p = c) (sample_properties g))) =
        min (max (population d div 100000) 5) 15) \<and>
     length (filter (\<lambda>p. county p = ''Montgomery County'') (sample_properties g)) = 6"
proof -
  obtain g where g: "create_texas_cad_sample_data TexasCADScraper rnd = Inr g"
    and sp: "sample_properties g =
       concat (map (\<lambda>(c, d). map (\<lambda>i. projr (property_data_of TexasCADScraper c d (rnd c i)))
                     [0..<nat (property_count (population d))]) (texas_cads TexasCADScraper))"
    using configured_generator by blast
  have each: "int (length (filter (\<lambda>p. county p = c) (sample_properties g))) =
        min (max (population d div 100000) 5) 15"
    if "(c, d) \<in> set (texas_cads TexasCADScraper)" for c d
  proof -
    have "length (filter (\<lambda>p. county p = c) (sample_properties g)) =
          nat (property_count (population d))"
      unfolding sp using configured_table that by (rule county_count)
    then show ?thesis by (simp add: property_count_clamp)
  qed
  have "(''Montgomery County'', \<lparr>url = ''https://mctx.org'', population = 620443,
          major_cities = [''Conroe'', ''The Woodlands'', ''Spring'', ''Tomball'']\<rparr>)
        \<in> set (texas_cads TexasCADScraper)"
    by (simp add: TexasCADScraper_def)
  from each [OF this]
  have "length (filter (\<lambda>p. county p = ''Montgomery County'') (sample_properties g)) = 6"
    by simp
  with g each show ?thesis by blast
qed





theorem record_count_per_county_witness:
  "\<exists>g. create_texas_cad_sample_data TexasCADScraper (\<lambda>c i. \<lparr>u_first_name = 0, u_last_name = 0, u_joint = 0, u_spouse_first = 0,
      u_house_number = 0, u_street = 0, u_city = 0, u_zipcode = 0, u_year_built = 0,
      u_square_feet = 0, u_lot_size = 0, u_value = 0, u_account_a = 0,
      u_account_b = 0, u_property_type = 0, u_market_value = 0, u_homestead = 0,
      u_sale_year = 0, u_sale_month = 0, u_sale_day = 0, u_sale_price = 0,
      t_score = \<lparr>dt_year = 2024, dt_month = 6, dt_day = 15, dt_hour = 12, dt_minute = 0, dt_second = 0, dt_microsecond = 0\<rparr>,
      t_scraped = \<lparr>dt_year = 2024, dt_month = 6, dt_day = 15, dt_hour = 12, dt_minute = 0, dt_second = 0, dt_microsecond = 0\<rparr>\<rparr>) = Inr g \<and>
     int (length (filter (\<lambda>p. county p = ''Harris County'') (sample_properties g))) = 15"
proof -
  obtain g where g: "create_texas_cad_sample_data TexasCADScraper (\<lambda>c i. \<lparr>u_first_name = 0, u_last_name = 0, u_joint = 0, u_spouse_first = 0,
      u_house_number = 0, u_street = 0, u_city = 0, u_zipcode = 0, u_year_built = 0,
      u_square_feet = 0, u_lot_size = 0, u_value = 0, u_account_a = 0,
      u_account_b = 0, u_property_type = 0, u_market_value = 0, u_homestead = 0,
      u_sale_year = 0, u_sale_month = 0, u_sale_day = 0, u_sale_price = 0,
      t_score = \<lparr>dt_year = 2024, dt_month = 6, dt_day = 15, dt_hour = 12, dt_minute = 0, dt_second = 0, dt_microsecond = 0\<rparr>,
      t_scraped = \<lparr>dt_year = 2024, dt_month = 6, dt_day = 15, dt_hour = 12, dt_minute = 0, dt_second = 0, dt_microsecond = 0\<rparr>\<rparr>) = Inr g"
    and each: "\<forall>(c, d) \<in> set (texas_cads TexasCADScraper).
        int (length (filter (\<lambda>p. county p = c) (sample_properties g))) =
        min (max (population d div 100000) 5) 15"
    using record_count_per_county [of "\<lambda>c i. \<lparr>u_first_name = 0, u_last_name = 0, u_joint = 0, u_spouse_first = 0,
      u_house_number = 0, u_street = 0, u_city = 0, u_zipcode = 0, u_year_built = 0,
      u_square_feet = 0, u_lot_size = 0, u_value = 0, u_account_a = 0,
      u_account_b = 0, u_property_type = 0, u_market_value = 0, u_homestead = 0,
      u_sale_year = 0, u_sale_month = 0, u_sale_day = 0, u_sale_price = 0,
      t_score = \<lparr>dt_year = 2024, dt_month = 6, dt_day = 15, dt_hour = 12, dt_minute = 0, dt_second = 0, dt_microsecond = 0\<rparr>,
      t_scraped = \<lparr>dt_year = 2024, dt_month = 6, dt_day = 15, dt_hour = 12, dt_minute = 0, dt_second = 0, dt_microsecond = 0\<rparr>\<rparr>"] by blast
  have "(''Harris County'', \<lparr>url = ''https://hcad.org'', population = 4731145,
          major_cities = [''Houston'', ''Pasadena'', ''Pearland'', ''League City'']\<rparr>)
        \<in> set (texas_cads TexasCADScraper)"
    by (simp add: TexasCADScraper_def)
  with each have "int (length (filter (\<lambda>p. county p = ''Harris County'') (sample_properties g))) =
        min (max (population \<lparr>url = ''https://hcad.org'', population = 4731145,
          major_cities = [''Houston'', ''Pasadena'', ''Pearland'', ''League City'']\<rparr> div 100000) 5) 15"
    by blast
  then have "int (length (filter (\<lambda>p. county p = ''Harris County'') (sample_properties g))) = 15"
    by simp
  with g show ?thesis by blast
qed









section \<open>Properties of the aggregator\<close>

lemma tally_step_shape:
  assumes "value_ranges t =
             [(''under_200k'', a), (''200k_400k'', b), (''400k_600k'', c), (''over_600k'', d)]"
    and "lead_scores t = [(''high'', h), (''medium'', m), (''low'', l)]"
  shows "\<exists>t'. tally_step t p = Inr t' \<and>
     value_ranges t' =
       [(''under_200k'', a + (if appraised_value p < 200000 then 1 else 0)),
        (''200k_400k'', b + (if 200000 \<le> appraised_value p \<and> appraised_value p < 400000 then 1 else 0)),
        (''400k_600k'', c + (if 400000 \<le> appraised_value p \<and> appraised_value p < 600000 then 1 else 0)),
        (''over_600k'', d + (if 600000 \<le> appraised_value p then 1 else 0))] \<and>
     lead_scores t' =
       [(''high'', h + (if 8 \<le> lead_score p then 1 else 0)),
        (''medium'', m + (if 6 \<le> lead_score p \<and> lead_score p < 8 then 1 else 0)),
        (''low'', l + (if lead_score p < 6 then 1 else 0))] \<and>
     total_value t' = total_value t + appraised_value p"
  using assms by (simp add: tally_step_def dict_incr_def and_then_def Let_def)


lemma tally_loop_shape:
  assumes "value_ranges t =
             [(''under_200k'', a), (''200k_400k'', b), (''400k_600k'', c), (''over_600k'', d)]"
    and "lead_scores t = [(''high'', h), (''medium'', m), (''low'', l)]"
  shows "\<exists>t'. tally_loop t props = Inr t' \<and>
     value_ranges t' =
       [(''under_200k'', a + int (length (filter (\<lambda>p. appraised_value p < 200000) props))),
        (''200k_400k'', b + int (length (filter
            (\<lambda>p. 200000 \<le> appraised_value p \<and> appraised_value p < 400000) props))),
        (''400k_600k'', c + int (length (filter
            (\<lambda>p. 400000 \<le> appraised_value p \<and> appraised_value p < 600000) props))),
        (''over_600k'', d + int (length (filter (\<lambda>p. 600000 \<le> appraised_value p) props)))] \<and>
     total_value t' = total_value t + sum_list (map appraised_value props)"
  using assms
proof (induction props arbitrary: t a b c d h m l)
  case Nil
  then show ?case by simp
next
  case (Cons p props)
  from tally_step_shape [OF Cons.prems, of p]
  obtain t1 where step: "tally_step t p = Inr t1"
    and vr: "value_ranges t1 =
       [(''under_200k'', a + (if appraised_value p < 200000 then 1 else 0)),
        (''200k_400k'', b + (if 200000 \<le> appraised_value p \<and> appraised_value p < 400000 then 1 else 0)),
        (''400k_600k'', c + (if 400000 \<le> appraised_value p \<and> appraised_value p < 600000 then 1 else 0)),
        (''over_600k'', d + (if 600000 \<le> appraised_value p then 1 else 0))]"
    and ls: "lead_scores t1 =
       [(''high'', h + (if 8 \<le> lead_score p then 1 else 0)),
        (''medium'', m + (if 6 \<le> lead_score p \<and> lead_score p < 8 then 1 else 0)),
        (''low'', l + (if lead_score p < 6 then 1 else 0))]"
    and tv: "total_value t1 = total_value t + appraised_value p"
    by blast
  from Cons.IH [OF vr ls]
  obtain t' where loop: "tally_loop t1 props = Inr t'"
    and vr': "value_ranges t' =
       [(''under_200k'', a + (if appraised_value p < 200000 then 1 else 0) +
            int (length (filter (\<lambda>p. appraised_value p < 200000) props))),
        (''200k_400k'', b + (if 200000 \<le> appraised_value p \<and> appraised_value p < 400000 then 1 else 0) +
            int (length (filter
              (\<lambda>p. 200000 \<le> appraised_value p \<and> appraised_value p < 400000) props))),
        (''400k_600k'', c + (if 400000 \<le> appraised_value p \<and> appraised_value p < 600000 then 1 else 0) +
            int (length (filter
              (\<lambda>p. 400000 \<le> appraised_value p \<and> appraised_value p < 600000) props))),
        (''over_600k'', d + (if 600000 \<le> appraised_value p then 1 else 0) +
            int (length (filter (\<lambda>p. 600000 \<le> appraised_value p) props)))]"
    and tv': "total_value t' = total_value t1 + sum_list (map appraised_value props)"
    by blast
  have "tally_loop t (p # props) = Inr t'"
    using step loop by (simp add: and_then_def)
  moreover have "total_value t' = total_value t + sum_list (map appraised_value (p # props))"
    using tv tv' by simp
  ultimately show ?case using vr' by simp
qed

lemma value_buckets_partition:
  "int (length (filter (\<lambda>p. appraised_value p < 200000) props)) +
   int (length (filter (\<lambda>p. 200000 \<le> appraised_value p \<and> appraised_value p < 400000) props)) +
   int (length (filter (\<lambda>p. 400000 \<le> appraised_value p \<and> appraised_value p < 600000) props)) +
   int (length (filter (\<lambda>p. 600000 \<le> appraised_value p) props)) = int (length props)"
  by (induction props) auto

lemma tally_loop_init:
  "\<exists>t'. tally_loop tally_init props = Inr t' \<and>
     value_ranges t' =
       [(''under_200k'', int (length (filter (\<lambda>p. appraised_value p < 200000) props))),
        (''200k_400k'', int (length (filter
            (\<lambda>p. 200000 \<le> appraised_value p \<and> appraised_value p < 400000) props))),
        (''400k_600k'', int (length (filter
            (\<lambda>p. 400000 \<le> appraised_value p \<and> appraised_value p < 600000) props))),
        (''over_600k'', int (length (filter (\<lambda>p. 600000 \<le> appraised_value p) props)))] \<and>
     total_value t' = sum_list (map appraised_value props)"
  using tally_loop_shape [of tally_init 0 0 0 0 0 0 0 props]
  by (simp add: tally_init_def)

lemma get_cad_stats_nonempty:
  assumes "all_properties self \<noteq> []"
  shows "\<exists>t. tally_loop tally_init (all_properties self) = Inr t \<and>
     get_cad_stats self now =
       Inr [(''total_properties'', PInt (int (length (all_properties self)))),
            (''total_appraised_value'', PInt (total_value t)),
            (''average_value'',
               PInt (py_int (of_int (total_value t) / of_int (int (length (all_properties self)))))),
            (''counties'', PCounts (counties t)),
            (''value_ranges'', PCounts (value_ranges t)),
            (''lead_scores'', PCounts (lead_scores t)),
            (''homestead_properties'', PInt (homestead_count t)),
            (''scraped_at'', PStr (isoformat now))]"
proof -
  obtain t where t: "tally_loop tally_init (all_properties self) = Inr t"
    using tally_loop_init by blast
  have "int (length (all_properties self)) \<noteq> 0" using assms by simp
  then show ?thesis
    using assms t by (simp add: get_cad_stats_def and_then_def py_truediv_def)
qed

text \<open>
  C8. For a non-empty list of properties the aggregator returns a dict in which the four
  counts of \<^verbatim>\<open>value_ranges\<close> are the numbers of properties with an appraised value below
  200000, from 200000 to below 400000, from 400000 to below 600000, and from 600000 on;
  their sum is \<^verbatim>\<open>total_properties\<close>, the length of the list.
\<close>

theorem value_histogram_sums_to_total:
  assumes "all_properties self \<noteq> []"
  shows "\<exists>stats vr. get_cad_stats self now = Inr stats \<and>
     map_of stats ''total_properties'' = Some (PInt (int (length (all_properties self)))) \<and>
     map_of stats ''value_ranges'' = Some (PCounts vr) \<and>
     vr = [(''under_200k'',
              int (length (filter (\<lambda>p. appraised_value p < 200000) (all_properties self)))),
           (''200k_400k'',
              int (length (filter (\<lambda>p. 200000 \<le> appraised_value p \<and> appraised_value p < 400000)
                (all_properties self)))),
           (''400k_600k'',
              int (length (filter (\<lambda>p. 400000 \<le> appraised_value p \<and> appraised_value p < 600000)
                (all_properties self)))),
           (''over_600k'',
              int (length (filter (\<lambda>p. 600000 \<le> appraised_value p) (all_properties self))))] \<and>
     sum_list (map snd vr) = int (length (all_properties self))"
proof -
  obtain t where t: "tally_loop tally_init (all_properties self) = Inr t"
    and stats: "get_cad_stats self now =
       Inr [(''total_properties'', PInt (int (length (all_properties self)))),
            (''total_appraised_value'', PInt (total_value t)),
            (''average_value'',
               PInt (py_int (of_int (total_value t) / of_int (int (length (all_properties self)))))),
            (''counties'', PCounts (counties t)),
            (''value_ranges'', PCounts (value_ranges t)),
            (''lead_scores'', PCounts (lead_scores t)),
            (''homestead_properties'', PInt (homestead_count t)),
            (''scraped_at'', PStr (isoformat now))]"
    using get_cad_stats_nonempty [OF assms] by blast
  from tally_loop_init [of "all_properties self"] t
  have vr: "value_ranges t =
       [(''under_200k'',
              int (length (filter (\<lambda>p. appraised_value p < 200000) (all_properties self)))),
           (''200k_400k'',
              int (length (filter (\<lambda>p. 200000 \<le> appraised_value p \<and> appraised_value p < 400000)
                (all_properties self)))),
           (''400k_600k'',
              int (length (filter (\<lambda>p. 400000 \<le> appraised_value p \<and> appraised_value p < 600000)
                (all_properties self)))),
           (''over_600k'',
              int (length (filter (\<lambda>p. 600000 \<le> appraised_value p) (all_properties self))))]"
    by simp
  have sum: "sum_list (map snd (value_ranges t)) = int (length (all_properties self))"
    unfolding vr using value_buckets_partition [of "all_properties self"] by simp
  show ?thesis
    unfolding stats using vr sum by simp
qed


theorem value_histogram_sums_to_total_witness:
  "\<exists>stats vr. get_cad_stats (TexasCADScraper\<lparr>all_properties := [\<lparr>account_number = ''12345-678'', owner_name = ''Mary Smith'',
      property_address = ''100 Main St, Houston, TX 77001'', city = ''Houston'',
      county = ''Harris County'', zipcode = ''77001'', property_type = ''Townhouse'',
      year_built = 2000, square_feet = 2000, lot_size_acres = 1 / 2, appraised_value = 150000,
      market_value = 151000, homestead_exemption = True, last_sale_date = ''2020-01-15'',
      last_sale_price = 140000, cad_url = ''https://hcad.org/property-detail/12345-678'',
      lead_score = 8, data_source = ''CAD'', scraped_at = ''2024-06-15T12:00:00''\<rparr>, \<lparr>account_number = ''54321-876'', owner_name = ''John & Mary Jones'',
      property_address = ''250 Oak Ave, Dallas, TX 75201'', city = ''Dallas'',
      county = ''Dallas County'', zipcode = ''75201'', property_type = ''Duplex'',
      year_built = 2021, square_feet = 3000, lot_size_acres = 1 / 4, appraised_value = 650000,
      market_value = 640000, homestead_exemption = False, last_sale_date = ''2022-11-03'',
      last_sale_price = 700000, cad_url = ''https://dallascad.org/property-detail/54321-876'',
      lead_score = 9, data_source = ''CAD'', scraped_at = ''2024-06-15T12:00:00''\<rparr>]\<rparr>) \<lparr>dt_year = 2024, dt_month = 6, dt_day = 15, dt_hour = 12, dt_minute = 0, dt_second = 0,
      dt_microsecond = 0\<rparr> = Inr stats \<and>
     map_of stats ''total_properties'' = Some (PInt 2) \<and>
     map_of stats ''value_ranges'' = Some (PCounts vr) \<and>
     vr = [(''under_200k'', 1), (''200k_400k'', 0), (''400k_600k'', 0), (''over_600k'', 1)] \<and>
     sum_list (map snd vr) = 2"
  using value_histogram_sums_to_total [of "TexasCADScraper\<lparr>all_properties := [\<lparr>account_number = ''12345-678'', owner_name = ''Mary Smith'',
      property_address = ''100 Main St, Houston, TX 77001'', city = ''Houston'',
      county = ''Harris County'', zipcode = ''77001'', property_type = ''Townhouse'',
      year_built = 2000, square_feet = 2000, lot_size_acres = 1 / 2, appraised_value = 150000,
      market_value = 151000, homestead_exemption = True, last_sale_date = ''2020-01-15'',
      last_sale_price = 140000, cad_url = ''https://hcad.org/property-detail/12345-678'',
      lead_score = 8, data_source = ''CAD'', scraped_at = ''2024-06-15T12:00:00''\<rparr>, \<lparr>account_number = ''54321-876'', owner_name = ''John & Mary Jones'',
      property_address = ''250 Oak Ave, Dallas, TX 75201'', city = ''Dallas'',
      county = ''Dallas County'', zipcode = ''75201'', property_type = ''Duplex'',
      year_built = 2021, square_feet = 3000, lot_size_acres = 1 / 4, appraised_value = 650000,
      market_value = 640000, homestead_exemption = False, last_sale_date = ''2022-11-03'',
      last_sale_price = 700000, cad_url = ''https://dallascad.org/property-detail/54321-876'',
      lead_score = 9, data_source = ''CAD'', scraped_at = ''2024-06-15T12:00:00''\<rparr>]\<rparr>" "\<lparr>dt_year = 2024, dt_month = 6, dt_day = 15, dt_hour = 12, dt_minute = 0, dt_second = 0,
      dt_microsecond = 0\<rparr>"]
  by simp

text \<open>
  C1, as the code has it. For an empty list of properties the aggregator returns the empty
  dict: the result has no key \<^verbatim>\<open>total_properties\<close> and no key \<^verbatim>\<open>average_value\<close>, so it is
  not a result in which these keys have the value 0.
\<close>

theorem empty_stats_counterexample:
  "get_cad_stats TexasCADScraper \<lparr>dt_year = 2024, dt_month = 6, dt_day = 15, dt_hour = 12, dt_minute = 0, dt_second = 0,
      dt_microsecond = 0\<rparr> = Inr [] \<and>
   \<not> (\<exists>stats. get_cad_stats TexasCADScraper \<lparr>dt_year = 2024, dt_month = 6, dt_day = 15, dt_hour = 12, dt_minute = 0, dt_second = 0,
      dt_microsecond = 0\<rparr> = Inr stats \<and>
        map_of stats ''total_properties'' = Some (PInt 0) \<and>
        map_of stats ''average_value'' = Some (PInt 0))"
  by (simp add: get_cad_stats_def TexasCADScraper_def)

text \<open>
  C1, amended. For an empty list of properties the aggregator returns the empty dict
  \<^verbatim>\<open>{}\<close>, in which \<^verbatim>\<open>total_properties\<close> and \<^verbatim>\<open>average_value\<close> read as 0 through a lookup with
  the default 0 (\<^verbatim>\<open>stats.get(key, 0)\<close>, as \<^verbatim>\<open>main\<close> reads them); and for no list of
  properties does the aggregator raise ZeroDivisionError.
\<close>

theorem empty_stats_is_empty_dict:
  "(all_properties self = [] \<longrightarrow>
      (\<exists>stats. get_cad_stats self now = Inr stats \<and> stats = [] \<and>
         dict_get stats ''total_properties'' (PInt 0) = PInt 0 \<and>
         dict_get stats ''average_value'' (PInt 0) = PInt 0)) \<and>
   get_cad_stats self now \<noteq> Inl ZeroDivisionError"
proof (intro conjI impI)
  assume "all_properties self = []"
  then show "\<exists>stats. get_cad_stats self now = Inr stats \<and> stats = [] \<and>
         dict_get stats ''total_properties'' (PInt 0) = PInt 0 \<and>
         dict_get stats ''average_value'' (PInt 0) = PInt 0"
    by (simp add: get_cad_stats_def dict_get_def)
next
  show "get_cad_stats self now \<noteq> Inl ZeroDivisionError"
  proof (cases "all_properties self = []")
    case True
    then show ?thesis by (simp add: get_cad_stats_def)
  next
    case False
    from get_cad_stats_nonempty [OF False, of now] show ?thesis by auto
  qed
qed

theorem empty_stats_is_empty_dict_witness:
  "get_cad_stats TexasCADScraper \<lparr>dt_year = 2024, dt_month = 6, dt_day = 15, dt_hour = 12, dt_minute = 0, dt_second = 0,
      dt_microsecond = 0\<rparr> = Inr [] \<and>
   dict_get ([] :: (string \<times> pyval) list) ''total_properties'' (PInt 0) = PInt 0"
  using empty_stats_is_empty_dict [of TexasCADScraper "\<lparr>dt_year = 2024, dt_month = 6, dt_day = 15, dt_hour = 12, dt_minute = 0, dt_second = 0,
      dt_microsecond = 0\<rparr>"]
  by (simp add: TexasCADScraper_def)

section \<open>Properties of the exporter\<close>

lemma save_to_csv_nonempty:
  assumes "all_properties self = p # ps" and "can_open fs filename"
  shows "\<exists>fs'. save_to_csv self filename fs = Inr fs' \<and>
     files fs' filename =
       Some (map PStr (map fst (property_items p)) #
             map (\<lambda>q. map (\<lambda>k. dict_get (property_items q) k (PStr [])) (map fst (property_items p)))
               (p # ps))"
  using assms
  by (simp add: save_to_csv_def first_item_def and_then_def open_w_def write_rows_def Let_def)

text \<open>
  C10. For an empty list of properties \<^verbatim>\<open>save_to_csv\<close> returns with the file system
  unchanged: no file is created or written, not even a header row. The read of the first
  property, which on the empty list would raise IndexError, is not reached.
\<close>

theorem save_to_csv_empty:
  assumes "all_properties self = []"
  shows "save_to_csv self filename fs = Inr fs \<and>
         first_item (all_properties self) = Inl IndexError"
  using assms by (simp add: save_to_csv_def first_item_def)

theorem save_to_csv_empty_witness:
  "save_to_csv TexasCADScraper ''texas_cad_properties.csv'' \<lparr>files = (\<lambda>f. None), can_open = (\<lambda>f. True)\<rparr> = Inr \<lparr>files = (\<lambda>f. None), can_open = (\<lambda>f. True)\<rparr>"
  using save_to_csv_empty [of TexasCADScraper "''texas_cad_properties.csv''" "\<lparr>files = (\<lambda>f. None), can_open = (\<lambda>f. True)\<rparr>"]
  by (simp add: TexasCADScraper_def)

end
